theory Spec2Isabelle
  imports Complex_Main
begin

section \<open>Data model of app.py\<close>

text \<open>
  A Python \<open>str\<close> is modelled as a \<open>string\<close> holding its UTF-8 bytes: the encoding is
  injective and maps the empty \<open>str\<close> to \<open>[]\<close>, and the program only tests strings for
  emptiness and passes them on.

  The three LangChain message classes the program builds (\<open>SystemMessage\<close>,
  \<open>HumanMessage\<close>, \<open>AIMessage\<close>), each with its \<open>content\<close>.
\<close>

datatype message =
    SystemMessage (content: string)
  | HumanMessage (content: string)
  | AIMessage (content: string)

text \<open>
  The object \<open>get_llm_engine\<close> builds: \<open>ChatOllama(model=..., base_url=..., temperature=0.3)\<close>.
  The temperature is kept as the decimal literal of the source, three tenths.
\<close>

record ChatOllama =
  model :: string
  base_url :: string
  temperature :: rat

text \<open>
  An instance of Python's \<open>Exception\<close> with its text (\<open>str(e)\<close>); this is what
  \<open>except Exception\<close> catches.
\<close>

datatype exn = Exception string

text \<open>
  What \<open>requests.get\<close> gives: a response with its status code, or a raised
  \<open>requests.exceptions.RequestException\<close> (connection refused, timeout, ...).
\<close>

datatype http_result = Response nat | RequestException string

text \<open>
  The logging calls of the program. A record is identified by its format string; the
  interpolated values are the constructor's arguments.
\<close>

datatype level = DEBUG | INFO | WARNING | ERROR

datatype log_text =
    ConnectionOk
  | ConnectionError int int http_result
  | ConnectionFailed
  | GenerationStopped
  | SendingRequest string
  | GenerationError exn
  | FullResponse string
  | IncomingMessage string
  | SelectedModel string
  | EngineInitialised
  | StopRequested
  | ClearingHistory

text \<open>
  Everything the program does to the outside world, in order: log records, HTTP GETs
  (URL and timeout in seconds), sleeps, invocations of the chain
  \<open>chat_prompt | llm_engine | StrOutputParser()\<close> (the engine and the rendered
  request), process exit and the launch of the UI server.
\<close>

datatype event =
    Log level log_text
  | Get string nat
  | Sleep int
  | Invoke ChatOllama "message list"
  | Exit int
  | Launch string nat

text \<open>
  Python values the public methods return. A list is a mutable object and is passed by
  reference: \<open>PyList a\<close> is the list object at address \<open>a\<close> of the heap.
\<close>

type_synonym addr = nat

datatype pyval = PyNone | PyStr string | PyList addr | PyTuple "pyval list"

text \<open>Whether a value is a list, and the number of items of a tuple.\<close>

definition is_list :: "pyval \<Rightarrow> bool" where
  "is_list v = (case v of PyList a \<Rightarrow> True | _ \<Rightarrow> False)"

definition tuple_length :: "pyval \<Rightarrow> nat option" where
  "tuple_length v = (case v of PyTuple items \<Rightarrow> Some (length items) | _ \<Rightarrow> None)"

text \<open>
  The program state: the field \<open>chat_history\<close> of the one \<open>ChatBot\<close> instance that
  \<open>create_demo\<close> builds, the module-level \<open>stop_flag\<close> (a \<open>threading.Event\<close>),
  the list objects holding display histories (pairs of user text and reply text), the
  next unused address, and the events so far.
\<close>

record state =
  chat_history :: "message list"
  stop_flag :: bool
  heap :: "addr \<Rightarrow> (string \<times> string) list"
  next_addr :: addr
  events :: "event list"

text \<open>
  The outside world is a parameter. The inference server decides what an invocation of
  the chain yields, an exception or the reply text, and may take into account everything
  that happened before; likewise the health endpoint.
\<close>

type_synonym backend = "event list \<Rightarrow> ChatOllama \<Rightarrow> message list \<Rightarrow> exn + string"

type_synonym network = "event list \<Rightarrow> string \<Rightarrow> http_result"

section \<open>Constants\<close>

definition OLLAMA_API :: string where
  "OLLAMA_API = ''http://ollama:11434''"

text \<open>\<open>SYSTEM_TEMPLATE\<close>: a triple-quoted literal of two lines; the first ends in a blank.\<close>

definition SYSTEM_TEMPLATE :: string where
  "SYSTEM_TEMPLATE =
     ''You are an expert AI coding assistant. Provide concise, correct solutions '' @
     [CHR 0x0A] @
     ''with strategic print statements for debugging. Always respond in English.''"

text \<open>
  The greeting of \<open>__init__\<close> and \<open>clear_chat\<close>: "Hi! I'm DeepSeek. How can I help you
  code today? " followed by U+1F4BB (four bytes). The apostrophe is byte 0x27.
\<close>

definition GREETING :: string where
  "GREETING =
     ''Hi! I'' @ [CHR 0x27] @ ''m DeepSeek. How can I help you code today? '' @
     [CHR 0xF0, CHR 0x9F, CHR 0x92, CHR 0xBB]"

text \<open>
  The three fixed replies, Russian sentences after U+26A0 U+FE0F and a blank:
  "stopped by user" (line 72), "error: the model returned no answer." (line 79) and
  "error processing the request." (line 82).
\<close>

definition STOPPED_BY_USER :: string where
  "STOPPED_BY_USER =
     [CHR 0xE2, CHR 0x9A, CHR 0xA0, CHR 0xEF, CHR 0xB8, CHR 0x8F, CHR 0x20, CHR 0xD0,
      CHR 0x9E, CHR 0xD1, CHR 0x81, CHR 0xD1, CHR 0x82, CHR 0xD0, CHR 0xB0, CHR 0xD0,
      CHR 0xBD, CHR 0xD0, CHR 0xBE, CHR 0xD0, CHR 0xB2, CHR 0xD0, CHR 0xBB, CHR 0xD0,
      CHR 0xB5, CHR 0xD0, CHR 0xBD, CHR 0xD0, CHR 0xBE, CHR 0x20, CHR 0xD0, CHR 0xBF,
      CHR 0xD0, CHR 0xBE, CHR 0xD0, CHR 0xBB, CHR 0xD1, CHR 0x8C, CHR 0xD0, CHR 0xB7,
      CHR 0xD0, CHR 0xBE, CHR 0xD0, CHR 0xB2, CHR 0xD0, CHR 0xB0, CHR 0xD1, CHR 0x82,
      CHR 0xD0, CHR 0xB5, CHR 0xD0, CHR 0xBB, CHR 0xD0, CHR 0xB5, CHR 0xD0, CHR 0xBC]"

definition NO_ANSWER :: string where
  "NO_ANSWER =
     [CHR 0xE2, CHR 0x9A, CHR 0xA0, CHR 0xEF, CHR 0xB8, CHR 0x8F, CHR 0x20, CHR 0xD0,
      CHR 0x9E, CHR 0xD1, CHR 0x88, CHR 0xD0, CHR 0xB8, CHR 0xD0, CHR 0xB1, CHR 0xD0,
      CHR 0xBA, CHR 0xD0, CHR 0xB0, CHR 0x3A, CHR 0x20, CHR 0xD0, CHR 0xBC, CHR 0xD0,
      CHR 0xBE, CHR 0xD0, CHR 0xB4, CHR 0xD0, CHR 0xB5, CHR 0xD0, CHR 0xBB, CHR 0xD1,
      CHR 0x8C, CHR 0x20, CHR 0xD0, CHR 0xBD, CHR 0xD0, CHR 0xB5, CHR 0x20, CHR 0xD0,
      CHR 0xB2, CHR 0xD0, CHR 0xB5, CHR 0xD1, CHR 0x80, CHR 0xD0, CHR 0xBD, CHR 0xD1,
      CHR 0x83, CHR 0xD0, CHR 0xBB, CHR 0xD0, CHR 0xB0, CHR 0x20, CHR 0xD0, CHR 0xBE,
      CHR 0xD1, CHR 0x82, CHR 0xD0, CHR 0xB2, CHR 0xD0, CHR 0xB5, CHR 0xD1, CHR 0x82,
      CHR 0x2E]"

definition PROCESSING_ERROR :: string where
  "PROCESSING_ERROR =
     [CHR 0xE2, CHR 0x9A, CHR 0xA0, CHR 0xEF, CHR 0xB8, CHR 0x8F, CHR 0x20, CHR 0xD0,
      CHR 0x9E, CHR 0xD1, CHR 0x88, CHR 0xD0, CHR 0xB8, CHR 0xD0, CHR 0xB1, CHR 0xD0,
      CHR 0xBA, CHR 0xD0, CHR 0xB0, CHR 0x20, CHR 0xD0, CHR 0xBE, CHR 0xD0, CHR 0xB1,
      CHR 0xD1, CHR 0x80, CHR 0xD0, CHR 0xB0, CHR 0xD0, CHR 0xB1, CHR 0xD0, CHR 0xBE,
      CHR 0xD1, CHR 0x82, CHR 0xD0, CHR 0xBA, CHR 0xD0, CHR 0xB8, CHR 0x20, CHR 0xD0,
      CHR 0xB7, CHR 0xD0, CHR 0xB0, CHR 0xD0, CHR 0xBF, CHR 0xD1, CHR 0x80, CHR 0xD0,
      CHR 0xBE, CHR 0xD1, CHR 0x81, CHR 0xD0, CHR 0xB0, CHR 0x2E]"

section \<open>Logging\<close>

text \<open>
  \<open>logging.basicConfig(level=logging.INFO, ...)\<close>: the root logger drops records
  below \<open>INFO\<close>, so a \<open>logging.debug\<close> call emits nothing.
\<close>

definition logging :: "level \<Rightarrow> log_text \<Rightarrow> event list \<Rightarrow> event list" where
  "logging lvl t evs = (if lvl = DEBUG then evs else evs @ [Log lvl t])"

definition log_state :: "level \<Rightarrow> log_text \<Rightarrow> state \<Rightarrow> state" where
  "log_state lvl t s = s\<lparr>events := logging lvl t (events s)\<rparr>"

section \<open>The connectivity probe and the start of the module\<close>

text \<open>
  \<open>response.raise_for_status()\<close> raises \<open>HTTPError\<close>, a \<open>RequestException\<close>, for a
  status from 400 to 599.
\<close>

definition raise_for_status :: "nat \<Rightarrow> bool" where
  "raise_for_status code = (400 \<le> code \<and> code < 600)"

text \<open>
  The loop \<open>for i in range(retries)\<close> of \<open>test_ollama_connection\<close>, from index \<open>i\<close> on.
  A successful check returns \<open>True\<close> at once; a failed one is logged, the loop sleeps
  \<open>delay\<close> seconds and goes on; after the last index the function logs an error and
  returns \<open>False\<close>.
\<close>

function probe_from :: "network \<Rightarrow> int \<Rightarrow> int \<Rightarrow> int \<Rightarrow> event list \<Rightarrow> bool \<times> event list" where
  "probe_from net retries delay i evs =
     (if i < retries then
        (let url = OLLAMA_API @ ''/api/tags'';
             response = net evs url;
             evs1 = evs @ [Get url 5];
             failed = (case response of
                         Response code \<Rightarrow> raise_for_status code
                       | RequestException e \<Rightarrow> True)
         in if failed
            then probe_from net retries delay (i + 1)
                   (logging WARNING (ConnectionError (i + 1) retries response) evs1 @ [Sleep delay])
            else (True, logging INFO ConnectionOk evs1))
      else (False, logging ERROR ConnectionFailed evs))"
  by pat_completeness auto
termination
  by (relation "measure (\<lambda>(net, retries, delay, i, evs). nat (retries - i))") auto

declare probe_from.simps [simp del]

definition test_ollama_connection :: "network \<Rightarrow> int \<Rightarrow> int \<Rightarrow> event list \<Rightarrow> bool \<times> event list" where
  "test_ollama_connection net retries delay evs = probe_from net retries delay 0 evs"

text \<open>
  The statements the module runs when it is started as a script, lines 40 to 44 and 177
  to 179: the probe with its defaults (3 retries, 3 seconds); \<open>exit(1)\<close> when it fails;
  the probe a second time, its result dropped; then the UI is built and launched on
  0.0.0.0:7860.
\<close>

definition app_main :: "network \<Rightarrow> event list \<Rightarrow> event list" where
  "app_main net evs =
     (let (ok, evs1) = test_ollama_connection net 3 3 evs
      in if \<not> ok then evs1 @ [Exit 1]
         else let (ok2, evs2) = test_ollama_connection net 3 3 evs1
              in evs2 @ [Launch ''0.0.0.0'' 7860])"

section \<open>The engine factory and the prompt template\<close>

definition get_llm_engine :: "string \<Rightarrow> ChatOllama" where
  "get_llm_engine model_name =
     \<lparr>model = model_name, base_url = OLLAMA_API, temperature = 3 / 10\<rparr>"

text \<open>
  \<open>chat_prompt\<close> applied to \<open>{"input": ..., "chat_history": ...}\<close>: the system message
  of the template (it has no placeholder), the messages given for the placeholder
  \<open>chat_history\<close>, and a human message whose template \<open>{input}\<close> is the input itself.
\<close>

definition chat_prompt :: "string \<Rightarrow> message list \<Rightarrow> message list" where
  "chat_prompt input history = [SystemMessage SYSTEM_TEMPLATE] @ history @ [HumanMessage input]"

text \<open>
  \<open>chain.invoke({"input": user_input, "chat_history": self.chat_history})\<close>: the request
  is rendered from the arguments and sent through the engine; the outcome is the
  server's.
\<close>

definition chain_invoke ::
  "backend \<Rightarrow> ChatOllama \<Rightarrow> string \<Rightarrow> message list \<Rightarrow> state \<Rightarrow> (exn + string) \<times> state" where
  "chain_invoke backend llm_engine input history s =
     (let request = chat_prompt input history
      in (backend (events s) llm_engine request,
          s\<lparr>events := events s @ [Invoke llm_engine request]\<rparr>))"

section \<open>ChatBot\<close>

definition ChatBot_init :: "state \<Rightarrow> state" where
  "ChatBot_init s = s\<lparr>chat_history := [AIMessage GREETING]\<rparr>"

text \<open>
  \<open>generate_ai_response\<close>: the flag is cleared and then tested; the human message is
  appended; the chain is invoked inside \<open>try\<close>, an empty reply replaced through
  \<open>or\<close>, an exception replaced in the handler; the reply is appended and returned.
\<close>

definition generate_ai_response :: "backend \<Rightarrow> state \<Rightarrow> string \<Rightarrow> ChatOllama \<Rightarrow> string \<times> state" where
  "generate_ai_response backend s user_input llm_engine =
     (let s1 = s\<lparr>stop_flag := False\<rparr>
      in if stop_flag s1
         then (STOPPED_BY_USER, log_state WARNING GenerationStopped s1)
         else
           let s2 = log_state INFO (SendingRequest user_input) s1;
               s3 = s2\<lparr>chat_history := chat_history s2 @ [HumanMessage user_input]\<rparr>;
               (outcome, s4) = chain_invoke backend llm_engine user_input (chat_history s3) s3;
               (response, s5) =
                 (case outcome of
                    Inr reply \<Rightarrow> (if reply = [] then NO_ANSWER else reply, s4)
                  | Inl e \<Rightarrow> (PROCESSING_ERROR, log_state ERROR (GenerationError e) s4));
               s6 = s5\<lparr>chat_history := chat_history s5 @ [AIMessage response]\<rparr>;
               s7 = log_state INFO (FullResponse response) s6
           in (response, s7))"

text \<open>
  \<open>chat\<close>: \<open>history\<close> is the caller's list object; \<open>history.append\<close> changes it in
  place, and the method returns the same object twice after the empty string.
\<close>

definition chat :: "backend \<Rightarrow> state \<Rightarrow> string \<Rightarrow> string \<Rightarrow> addr \<Rightarrow> pyval \<times> state" where
  "chat backend s message model_choice history =
     (if message = []
      then (PyTuple [PyStr [], PyList history, PyList history], s)
      else
        let s1 = log_state DEBUG (IncomingMessage message) s;
            s2 = log_state DEBUG (SelectedModel model_choice) s1;
            llm_engine = get_llm_engine model_choice;
            s3 = log_state DEBUG EngineInitialised s2;
            (ai_response, s4) = generate_ai_response backend s3 message llm_engine;
            s5 = s4\<lparr>heap := (heap s4)(history := heap s4 history @ [(message, ai_response)])\<rparr>
        in (PyTuple [PyStr [], PyList history, PyList history], s5))"

definition stop_generation :: "state \<Rightarrow> pyval \<times> state" where
  "stop_generation s =
     (let s1 = log_state WARNING StopRequested s
      in (PyNone, s1\<lparr>stop_flag := True\<rparr>))"

text \<open>A list display \<open>[]\<close> makes a new, empty list object.\<close>

definition new_list :: "state \<Rightarrow> addr \<times> state" where
  "new_list s =
     (next_addr s, s\<lparr>heap := (heap s)(next_addr s := []), next_addr := Suc (next_addr s)\<rparr>)"

definition clear_chat :: "state \<Rightarrow> pyval \<times> state" where
  "clear_chat s =
     (let s1 = log_state INFO ClearingHistory s;
          s2 = s1\<lparr>chat_history := [AIMessage GREETING]\<rparr>;
          (a, s3) = new_list s2;
          (b, s4) = new_list s3
      in (PyTuple [PyList a, PyList b], s4))"

section \<open>Observations and runs\<close>

text \<open>The chain invocations among the events, and the URLs of the GETs, in order.\<close>

fun invocations :: "event list \<Rightarrow> (ChatOllama \<times> message list) list" where
  "invocations [] = []"
| "invocations (Invoke llm_engine request # evs) = (llm_engine, request) # invocations evs"
| "invocations (e # evs) = invocations evs"

fun gets :: "event list \<Rightarrow> string list" where
  "gets [] = []"
| "gets (Get url timeout # evs) = url # gets evs"
| "gets (e # evs) = gets evs"

text \<open>
  A sequence of \<open>chat\<close> calls, one after the other on the same \<open>ChatBot\<close>; each call
  has its message, its model choice and the list object it passes as history.
\<close>

fun chats :: "backend \<Rightarrow> state \<Rightarrow> (string \<times> string \<times> addr) list \<Rightarrow> state" where
  "chats backend s [] = s"
| "chats backend s ((message, model_choice, history) # calls) =
     chats backend (snd (chat backend s message model_choice history)) calls"

subsection \<open>Concrete inputs\<close>

text \<open>
  A state with an empty list object at every address and no events yet; a server that
  answers every request, one whose invocation raises, one that answers with the empty
  string; a health endpoint that answers 200.
\<close>

definition example_state :: state where
  "example_state =
     \<lparr>chat_history = [], stop_flag = False, heap = (\<lambda>a. []), next_addr = 1, events = []\<rparr>"

definition answering :: backend where
  "answering evs llm_engine request = Inr ''print(1)''"

definition raising :: backend where
  "raising evs llm_engine request = Inl (Exception ''connection refused'')"

definition silent :: backend where
  "silent evs llm_engine request = Inr []"

definition reachable :: network where
  "reachable evs url = Response 200"

section \<open>What one exchange does\<close>

lemma invocations_append: "invocations (xs @ ys) = invocations xs @ invocations ys"
  by (induction xs rule: invocations.induct) simp_all

text \<open>
  The early return of \<open>generate_ai_response\<close> tests the flag just cleared, so every call
  takes the other branch: one request, one reply, two messages appended.
\<close>

lemma generate_ai_response_unfold:
  "generate_ai_response backend s user_input llm_engine =
     (let request = chat_prompt user_input (chat_history s @ [HumanMessage user_input]);
          evs1 = events s @ [Log INFO (SendingRequest user_input)];
          outcome = backend evs1 llm_engine request;
          response = (case outcome of
                        Inr reply \<Rightarrow> if reply = [] then NO_ANSWER else reply
                      | Inl e \<Rightarrow> PROCESSING_ERROR)
      in (response,
          s\<lparr>stop_flag := False,
            chat_history := chat_history s @ [HumanMessage user_input, AIMessage response],
            events := evs1 @ [Invoke llm_engine request] @
                      (case outcome of Inr reply \<Rightarrow> [] | Inl e \<Rightarrow> [Log ERROR (GenerationError e)]) @
                      [Log INFO (FullResponse response)]\<rparr>))"
  by (simp add: generate_ai_response_def chain_invoke_def log_state_def logging_def Let_def
      split: sum.splits)

lemma chat_unfold:
  "message \<noteq> [] \<Longrightarrow>
   chat backend s message model_choice history =
     (let (ai_response, s') = generate_ai_response backend s message (get_llm_engine model_choice)
      in (PyTuple [PyStr [], PyList history, PyList history],
          s'\<lparr>heap := (heap s')(history := heap s' history @ [(message, ai_response)])\<rparr>))"
  by (simp add: chat_def log_state_def logging_def Let_def split: prod.splits)

lemma chat_history_chat:
  "message \<noteq> [] \<Longrightarrow>
   chat_history (snd (chat backend s message model_choice history)) =
     chat_history s @
     [HumanMessage message,
      AIMessage (fst (generate_ai_response backend s message (get_llm_engine model_choice)))]"
  by (simp add: chat_unfold generate_ai_response_unfold Let_def)

section \<open>The rendered request\<close>

text \<open>
  For every state and input, the request sent to the engine is the system message, the
  conversation as it was before the call, and then the new input twice: once as the
  human message that line 75 has already appended to \<open>self.chat_history\<close>, once more
  from the template's own \<open>{input}\<close> slot.
\<close>

lemma generate_ai_response_request:
  "invocations (events (snd (generate_ai_response backend s user_input llm_engine))) =
   invocations (events s) @
   [(llm_engine,
     SystemMessage SYSTEM_TEMPLATE # chat_history s @
     [HumanMessage user_input, HumanMessage user_input])]"
  by (simp add: generate_ai_response_unfold Let_def chat_prompt_def invocations_append
      split: sum.splits)

text \<open>
  C1. The claim: the rendered request is one system turn, the prior conversation turns
  and exactly one human turn holding the new input. The code at a new \<open>ChatBot\<close> and
  the input "hi": the one request sent is the system message, the greeting, and two
  human messages "hi".
\<close>

theorem C1_request_holds_input_twice:
  "invocations (events (snd (generate_ai_response answering (ChatBot_init example_state)
      ''hi'' (get_llm_engine ''deepseek-r1:1.5b'')))) =
   [(get_llm_engine ''deepseek-r1:1.5b'',
     [SystemMessage SYSTEM_TEMPLATE, AIMessage GREETING, HumanMessage ''hi'', HumanMessage ''hi''])]"
  by (simp add: generate_ai_response_unfold Let_def chat_prompt_def ChatBot_init_def
      example_state_def invocations_append answering_def)

section \<open>chat\<close>

text \<open>
  C2. For every non-empty message, model choice and history list, \<open>chat\<close> returns a
  tuple of three values: the empty string, and twice the list object it was given, which
  now holds its former pairs followed by the one pair of the message and the reply of
  \<open>generate_ai_response\<close>. No other list object changes.
\<close>

theorem C2_chat_returns_mirror_twice:
  assumes "message \<noteq> []"
  shows "fst (chat backend s message model_choice history) =
       PyTuple [PyStr [], PyList history, PyList history] \<and>
     heap (snd (chat backend s message model_choice history)) history =
       heap s history @
       [(message, fst (generate_ai_response backend s message (get_llm_engine model_choice)))] \<and>
     (\<forall>a. a \<noteq> history \<longrightarrow> heap (snd (chat backend s message model_choice history)) a = heap s a)"
  using assms by (simp add: chat_unfold generate_ai_response_unfold Let_def)

theorem C2_chat_returns_mirror_twice_witness:
  "fst (chat answering (ChatBot_init example_state) ''hi'' ''deepseek-r1:1.5b'' 0) =
       PyTuple [PyStr [], PyList 0, PyList 0] \<and>
   heap (snd (chat answering (ChatBot_init example_state) ''hi'' ''deepseek-r1:1.5b'' 0)) 0 =
       [(''hi'', ''print(1)'')]"
proof -
  have h: "''hi'' \<noteq> []" by simp
  from C2_chat_returns_mirror_twice
    [OF h, of answering "ChatBot_init example_state" "''deepseek-r1:1.5b''" 0]
  show ?thesis
    by (simp add: generate_ai_response_unfold Let_def answering_def ChatBot_init_def
        example_state_def)
qed

text \<open>
  The value returned is not a pair: at a new \<open>ChatBot\<close>, the message "hi" and an empty
  history, the tuple does not have two items.
\<close>

theorem C2_chat_result_is_no_pair:
  "tuple_length (fst (chat answering (ChatBot_init example_state) ''hi'' ''deepseek-r1:1.5b'' 0))
     \<noteq> Some 2"
  by (simp add: chat_def tuple_length_def Let_def split: prod.splits)

text \<open>
  C8. A \<open>chat\<close> call with the empty message returns the empty string and the list
  object it was given, and leaves the whole state as it was: no message is appended to
  the conversation, no list object changes, and no request is sent.
\<close>

theorem C8_empty_message_is_no_op:
  "chat backend s [] model_choice history =
     (PyTuple [PyStr [], PyList history, PyList history], s) \<and>
   chat_history (snd (chat backend s [] model_choice history)) = chat_history s \<and>
   heap (snd (chat backend s [] model_choice history)) = heap s \<and>
   invocations (events (snd (chat backend s [] model_choice history))) = invocations (events s)"
  by (simp add: chat_def)

section \<open>Length and shape of the conversation\<close>

lemma exchanges_length:
  "length rs = length cs \<Longrightarrow>
   length (concat (map2 (\<lambda>c r. [HumanMessage (fst c), AIMessage r]) cs rs)) = 2 * length cs"
  by (induction cs rs rule: list_induct2') simp_all

lemma chats_history:
  "\<forall>c \<in> set calls. fst c \<noteq> [] \<Longrightarrow>
   \<exists>replies. length replies = length calls \<and>
     chat_history (chats backend s calls) =
       chat_history s @ concat (map2 (\<lambda>c r. [HumanMessage (fst c), AIMessage r]) calls replies)"
proof (induction calls arbitrary: s)
  case Nil
  then show ?case by simp
next
  case (Cons c calls)
  obtain message model_choice history where c: "c = (message, model_choice, history)"
    by (cases c) auto
  let ?s = "snd (chat backend s message model_choice history)"
  let ?r = "fst (generate_ai_response backend s message (get_llm_engine model_choice))"
  from Cons.prems c have ne: "message \<noteq> []" by simp
  from Cons.prems have "\<forall>c \<in> set calls. fst c \<noteq> []" by simp
  from Cons.IH [OF this, of ?s] obtain replies where
    len: "length replies = length calls" and
    hist: "chat_history (chats backend ?s calls) =
       chat_history ?s @ concat (map2 (\<lambda>c r. [HumanMessage (fst c), AIMessage r]) calls replies)"
    by blast
  have "length (?r # replies) = length (c # calls)" using len by simp
  moreover have "chat_history (chats backend s (c # calls)) =
       chat_history s @
       concat (map2 (\<lambda>c r. [HumanMessage (fst c), AIMessage r]) (c # calls) (?r # replies))"
    using hist c by (simp add: chat_history_chat [OF ne])
  ultimately show ?case by blast
qed

text \<open>
  C3. After any sequence of \<open>chat\<close> calls with non-empty messages on a new \<open>ChatBot\<close>,
  the conversation has one message plus two per call: the greeting, then for each call
  in order a human message with the call's message and an assistant message.
\<close>

theorem C3_conversation_length:
  assumes "\<forall>c \<in> set calls. fst c \<noteq> []"
  shows "length (chat_history (chats backend (ChatBot_init s) calls)) = 1 + 2 * length calls \<and>
     (\<exists>replies. length replies = length calls \<and>
        chat_history (chats backend (ChatBot_init s) calls) =
          AIMessage GREETING #
          concat (map2 (\<lambda>c r. [HumanMessage (fst c), AIMessage r]) calls replies))"
proof -
  from chats_history [OF assms, of backend "ChatBot_init s"] obtain replies where
    len: "length replies = length calls" and
    hist: "chat_history (chats backend (ChatBot_init s) calls) =
       chat_history (ChatBot_init s) @
       concat (map2 (\<lambda>c r. [HumanMessage (fst c), AIMessage r]) calls replies)"
    by blast
  have init: "chat_history (ChatBot_init s) = [AIMessage GREETING]"
    by (simp add: ChatBot_init_def)
  have "length (chat_history (chats backend (ChatBot_init s) calls)) = 1 + 2 * length calls"
    using hist init exchanges_length [OF len] by simp
  moreover have "chat_history (chats backend (ChatBot_init s) calls) =
          AIMessage GREETING #
          concat (map2 (\<lambda>c r. [HumanMessage (fst c), AIMessage r]) calls replies)"
    using hist init by simp
  ultimately show ?thesis using len by blast
qed

theorem C3_conversation_length_witness:
  "length (chat_history (chats raising (ChatBot_init example_state)
     [(''hi'', ''deepseek-r1:1.5b'', 0), (''bye'', ''deepseek-r1:7b'', 0)])) = 5"
  using C3_conversation_length
    [of "[(''hi'', ''deepseek-r1:1.5b'', 0), (''bye'', ''deepseek-r1:7b'', 0)]"
      raising example_state]
  by simp

section \<open>Failures of the engine\<close>

text \<open>
  The only statement of \<open>generate_ai_response\<close> that can raise is the chain invocation,
  inside \<open>try\<close>; the handler \<open>except Exception\<close> turns the exception into a reply. So
  the function always returns a string, which is why its model has no exceptional
  outcome.

  C4. With an engine whose invocation raises an exception, \<open>generate_ai_response\<close>
  returns the fixed error text, and the conversation gains a human message with the
  input and an assistant message with that text.
\<close>

theorem C4_exception_becomes_sentinel:
  assumes "\<And>evs request. \<exists>e. backend evs llm_engine request = Inl e"
  shows "fst (generate_ai_response backend s user_input llm_engine) = PROCESSING_ERROR \<and>
     chat_history (snd (generate_ai_response backend s user_input llm_engine)) =
       chat_history s @ [HumanMessage user_input, AIMessage PROCESSING_ERROR]"
proof -
  obtain e where
    "backend (events s @ [Log INFO (SendingRequest user_input)]) llm_engine
       (chat_prompt user_input (chat_history s @ [HumanMessage user_input])) = Inl e"
    using assms by blast
  then show ?thesis
    by (simp add: generate_ai_response_unfold Let_def)
qed

theorem C4_exception_becomes_sentinel_witness:
  "fst (generate_ai_response raising (ChatBot_init example_state) ''hi''
      (get_llm_engine ''deepseek-r1:1.5b'')) = PROCESSING_ERROR \<and>
   chat_history (snd (generate_ai_response raising (ChatBot_init example_state) ''hi''
      (get_llm_engine ''deepseek-r1:1.5b''))) =
     [AIMessage GREETING, HumanMessage ''hi'', AIMessage PROCESSING_ERROR]"
proof -
  have h: "\<And>evs request. \<exists>e. raising evs (get_llm_engine ''deepseek-r1:1.5b'') request = Inl e"
    by (simp add: raising_def)
  from C4_exception_becomes_sentinel
    [of raising "get_llm_engine ''deepseek-r1:1.5b''" "ChatBot_init example_state" "''hi''", OF h]
  show ?thesis by (simp add: ChatBot_init_def)
qed

text \<open>
  C5. With an engine whose invocation succeeds and yields the empty string,
  \<open>generate_ai_response\<close> returns the fixed "no answer" text, which is not empty, and
  that text is the assistant message appended after the human message.
\<close>

theorem C5_empty_reply_becomes_sentinel:
  assumes "\<And>evs request. backend evs llm_engine request = Inr []"
  shows "fst (generate_ai_response backend s user_input llm_engine) = NO_ANSWER \<and>
     NO_ANSWER \<noteq> [] \<and>
     chat_history (snd (generate_ai_response backend s user_input llm_engine)) =
       chat_history s @ [HumanMessage user_input, AIMessage NO_ANSWER]"
  using assms by (simp add: generate_ai_response_unfold Let_def) (simp add: NO_ANSWER_def)

theorem C5_empty_reply_becomes_sentinel_witness:
  "fst (generate_ai_response silent (ChatBot_init example_state) ''hi''
      (get_llm_engine ''deepseek-r1:1.5b'')) = NO_ANSWER \<and>
   chat_history (snd (generate_ai_response silent (ChatBot_init example_state) ''hi''
      (get_llm_engine ''deepseek-r1:1.5b''))) =
     [AIMessage GREETING, HumanMessage ''hi'', AIMessage NO_ANSWER]"
proof -
  have h: "\<And>evs request. silent evs (get_llm_engine ''deepseek-r1:1.5b'') request = Inr []"
    by (simp add: silent_def)
  from C5_empty_reply_becomes_sentinel
    [of silent "get_llm_engine ''deepseek-r1:1.5b''" "ChatBot_init example_state" "''hi''", OF h]
  show ?thesis by (simp add: ChatBot_init_def)
qed

section \<open>The cancellation flag\<close>

text \<open>
  Calls run one after the other here; a \<open>stop_generation\<close> running in another thread
  between lines 68 and 70 is outside this model.

  C6. Whatever the flag is on entry, a \<open>chat\<close> call with a non-empty message sends
  exactly one request to the engine, and the reply it records, in the conversation and
  in the history list, is the engine's text, or the "no answer" text for an empty one,
  or the error text for an exception. The warning of the early return is not logged,
  and the call with the flag set gives the same result and state as with the flag clear.
\<close>

theorem C6_flag_does_not_stop_chat:
  assumes "message \<noteq> []"
  shows
    "let llm_engine = get_llm_engine model_choice;
         request = chat_prompt message (chat_history s @ [HumanMessage message]);
         outcome = backend (events s @ [Log INFO (SendingRequest message)]) llm_engine request;
         reply = (case outcome of
                    Inr r \<Rightarrow> if r = [] then NO_ANSWER else r
                  | Inl e \<Rightarrow> PROCESSING_ERROR);
         s' = snd (chat backend s message model_choice history)
     in invocations (events s') = invocations (events s) @ [(llm_engine, request)] \<and>
        chat_history s' = chat_history s @ [HumanMessage message, AIMessage reply] \<and>
        heap s' history = heap s history @ [(message, reply)] \<and>
        Log WARNING GenerationStopped \<notin> set (drop (length (events s)) (events s')) \<and>
        chat backend (s\<lparr>stop_flag := True\<rparr>) message model_choice history =
          chat backend (s\<lparr>stop_flag := False\<rparr>) message model_choice history"
  using assms
  by (simp add: chat_unfold generate_ai_response_unfold Let_def invocations_append
      split: sum.splits)

text \<open>The same right after \<open>stop_generation\<close>, on a new \<open>ChatBot\<close>.\<close>

theorem C6_flag_does_not_stop_chat_witness:
  "invocations (events (snd (chat answering (snd (stop_generation (ChatBot_init example_state)))
      ''hi'' ''deepseek-r1:1.5b'' 0))) =
     [(get_llm_engine ''deepseek-r1:1.5b'',
       chat_prompt ''hi'' [AIMessage GREETING, HumanMessage ''hi''])] \<and>
   chat_history (snd (chat answering (snd (stop_generation (ChatBot_init example_state)))
      ''hi'' ''deepseek-r1:1.5b'' 0)) =
     [AIMessage GREETING, HumanMessage ''hi'', AIMessage ''print(1)'']"
proof -
  have h: "''hi'' \<noteq> []" by simp
  from C6_flag_does_not_stop_chat
    [OF h, of "''deepseek-r1:1.5b''" "snd (stop_generation (ChatBot_init example_state))"
      answering 0]
  show ?thesis
    by (simp add: Let_def answering_def stop_generation_def log_state_def logging_def
        ChatBot_init_def example_state_def chat_unfold generate_ai_response_unfold
        invocations_append)
qed

text \<open>
  C10. \<open>stop_generation\<close> returns \<open>None\<close>, sets the flag and logs one warning; the
  conversation, every list object and the allocation of addresses stay as they were.
\<close>

theorem C10_stop_changes_only_the_flag:
  "fst (stop_generation s) = PyNone \<and>
   chat_history (snd (stop_generation s)) = chat_history s \<and>
   heap (snd (stop_generation s)) = heap s \<and>
   next_addr (snd (stop_generation s)) = next_addr s \<and>
   stop_flag (snd (stop_generation s)) \<and>
   events (snd (stop_generation s)) = events s @ [Log WARNING StopRequested]"
  by (simp add: stop_generation_def log_state_def logging_def)

section \<open>clear_chat\<close>

text \<open>
  C7. From every state, \<open>clear_chat\<close> leaves the conversation with exactly one message,
  the greeting, and returns a tuple of two new list objects, both empty.
\<close>

theorem C7_clear_resets_conversation:
  "fst (clear_chat s) = PyTuple [PyList (next_addr s), PyList (Suc (next_addr s))] \<and>
   heap (snd (clear_chat s)) (next_addr s) = [] \<and>
   heap (snd (clear_chat s)) (Suc (next_addr s)) = [] \<and>
   chat_history (snd (clear_chat s)) = [AIMessage GREETING]"
  by (simp add: clear_chat_def new_list_def log_state_def Let_def)

text \<open>The value returned is not itself an empty list: it is a tuple, of two items.\<close>

theorem C7_clear_result_is_no_list:
  "\<not> is_list (fst (clear_chat example_state)) \<and>
   tuple_length (fst (clear_chat example_state)) = Some 2"
  by (simp add: clear_chat_def new_list_def is_list_def tuple_length_def Let_def)

section \<open>The probe at start\<close>

lemma probe_reachable:
  assumes "\<And>evs. \<exists>code. net evs (OLLAMA_API @ ''/api/tags'') = Response code \<and> \<not> raise_for_status code"
  shows "test_ollama_connection net 3 3 evs =
     (True, evs @ [Get (OLLAMA_API @ ''/api/tags'') 5, Log INFO ConnectionOk])"
proof -
  obtain code where
    "net evs (OLLAMA_API @ ''/api/tags'') = Response code" "\<not> raise_for_status code"
    using assms by blast
  then show ?thesis
    by (simp add: test_ollama_connection_def probe_from.simps [of net 3 3 0] logging_def Let_def)
qed

text \<open>
  C9. The module calls the probe twice, at line 40 and again at line 44.
  When the health endpoint answers every GET with a status that is no error, each of the
  two calls sends exactly one GET to \<open>/api/tags\<close> and logs its success, and then the UI
  is launched: two GETs before the UI is served.
\<close>

theorem C9_probe_runs_twice:
  assumes "\<And>evs. \<exists>code. net evs (OLLAMA_API @ ''/api/tags'') = Response code \<and> \<not> raise_for_status code"
  shows "app_main net evs =
     evs @ [Get (OLLAMA_API @ ''/api/tags'') 5, Log INFO ConnectionOk,
            Get (OLLAMA_API @ ''/api/tags'') 5, Log INFO ConnectionOk,
            Launch ''0.0.0.0'' 7860]"
proof -
  have "test_ollama_connection net 3 3 evs' =
      (True, evs' @ [Get (OLLAMA_API @ ''/api/tags'') 5, Log INFO ConnectionOk])" for evs'
    by (rule probe_reachable) (rule assms)
  then show ?thesis
    by (simp add: app_main_def)
qed

theorem C9_probe_runs_twice_witness:
  "app_main reachable [] =
     [Get ''http://ollama:11434/api/tags'' 5, Log INFO ConnectionOk,
      Get ''http://ollama:11434/api/tags'' 5, Log INFO ConnectionOk,
      Launch ''0.0.0.0'' 7860]"
proof -
  have h: "\<And>evs. \<exists>code. reachable evs (OLLAMA_API @ ''/api/tags'') = Response code \<and>
      \<not> raise_for_status code"
    by (simp add: reachable_def raise_for_status_def)
  have "app_main reachable [] =
     [] @ [Get (OLLAMA_API @ ''/api/tags'') 5, Log INFO ConnectionOk,
            Get (OLLAMA_API @ ''/api/tags'') 5, Log INFO ConnectionOk,
            Launch ''0.0.0.0'' 7860]"
    by (rule C9_probe_runs_twice) (rule h)
  then show ?thesis
    by (simp add: OLLAMA_API_def)
qed

text \<open>
  So the endpoint is not consumed by one probe round only: with an endpoint that always
  answers 200, the number of GETs sent at start is not one.
\<close>

theorem C9_start_sends_two_gets:
  "\<not> length (gets (app_main reachable [])) = 1"
proof -
  have "\<And>evs. \<exists>code. reachable evs (OLLAMA_API @ ''/api/tags'') = Response code \<and>
      \<not> raise_for_status code"
    by (simp add: reachable_def raise_for_status_def)
  then have "test_ollama_connection reachable 3 3 evs =
      (True, evs @ [Get (OLLAMA_API @ ''/api/tags'') 5, Log INFO ConnectionOk])" for evs
    by (rule probe_reachable)
  then show ?thesis
    by (simp add: app_main_def)
qed

end
